theory Spec2Isabelle
  imports Main "HOL-Library.Word"
begin

unbundle bit_operations_syntax

section \<open>Values of the Go program\<close>

text \<open>
  A Go \<^verbatim>\<open>[]byte\<close> is a list of 8-bit words; a Go \<^verbatim>\<open>string\<close> is an immutable byte
  sequence, modelled as a HOL \<open>string\<close> (a list of 8-bit characters). The conversions
  \<^verbatim>\<open>string(data)\<close> and \<^verbatim>\<open>[]byte(data)\<close> copy the bytes unchanged.
\<close>

type_synonym byte = "8 word"
type_synonym uint = "64 word"

definition string_of_bytes :: "byte list \<Rightarrow> string" where
  "string_of_bytes data = map (\<lambda>b. char_of (unat b)) data"

definition bytes_of_string :: "string \<Rightarrow> byte list" where
  "bytes_of_string data = map (\<lambda>c. of_char c) data"

text \<open>
  Go errors are values. \<open>CorruptInputError\<close> is the error of \<^verbatim>\<open>encoding/base64\<close> (it carries
  the offset of the offending input byte), \<open>ErrSecretNotFound\<close> and \<open>RemoteError\<close> are what a
  request to the Vault server can answer, \<open>Errorf\<close> is \<^verbatim>\<open>fmt.Errorf\<close> (the format string and
  the error wrapped by \<^verbatim>\<open>%w\<close>, if any) and \<open>WithStack\<close> is \<^verbatim>\<open>errors.WithStack\<close>.
\<close>

datatype error =
    CorruptInputError nat
  | ErrSecretNotFound
  | RemoteError string
  | Errorf string "error option"
  | WithStack error

text \<open>
  The dynamic values a \<^verbatim>\<open>map[string]interface{}\<close> holds when it is sent to, or decoded from,
  the KV backend.
\<close>

datatype json =
    JString string
  | JNumber int
  | JBool bool
  | JNull
  | JArray "json list"
  | JObject "(string \<times> json) list"

section \<open>The standard base64 encoding\<close>

text \<open>
  \<^verbatim>\<open>base64.StdEncoding\<close> of the Go standard library: the alphabet of RFC 4648 with \<^verbatim>\<open>=\<close>
  padding, decoding in the non-strict mode. The library is not part of the repository;
  the model follows its \<^verbatim>\<open>Encode\<close>, \<^verbatim>\<open>Decode\<close> and \<^verbatim>\<open>decodeQuantum\<close>. The decoder's two
  fast paths (eight and four input bytes at a time) fall back to \<^verbatim>\<open>decodeQuantum\<close> and
  compute what it computes, so only the latter is modelled.
\<close>

definition encodeStd :: string where
  "encodeStd = ''ABCDEFGHIJKLMNOPQRSTUVWXYZabcdefghijklmnopqrstuvwxyz0123456789+/''"

definition StdPadding :: char where
  "StdPadding = CHR ''=''"

text \<open>\<^verbatim>\<open>enc.encode[i]\<close>; every index the encoder uses is masked with \<^verbatim>\<open>0x3F\<close>.\<close>

definition encode_tab :: "uint \<Rightarrow> char" where
  "encode_tab i = encodeStd ! unat i"

text \<open>
  \<^verbatim>\<open>enc.decodeMap\<close>: \<^verbatim>\<open>0xFF\<close> everywhere, then \<^verbatim>\<open>decodeMap[encoder[i]] = byte(i)\<close> for every
  index of the alphabet.
\<close>

definition decodeMap :: "char \<Rightarrow> byte" where
  "decodeMap = fold (\<lambda>i m. m(encodeStd ! i := of_nat i)) [0..<length encodeStd] (\<lambda>_. 0xFF)"

text \<open>
  \<^verbatim>\<open>Encode\<close>: three source bytes become four characters; a remainder of two or one bytes
  is encoded into three or two characters and padded to four.
\<close>

fun Encode :: "byte list \<Rightarrow> string" where
  "Encode (a # b # c # src) =
     (let val = push_bit 16 (ucast a :: uint) OR push_bit 8 (ucast b) OR ucast c
      in [encode_tab (drop_bit 18 val AND 0x3F), encode_tab (drop_bit 12 val AND 0x3F),
          encode_tab (drop_bit 6 val AND 0x3F), encode_tab (val AND 0x3F)] @ Encode src)"
| "Encode [a, b] =
     (let val = push_bit 16 (ucast a :: uint) OR push_bit 8 (ucast b)
      in [encode_tab (drop_bit 18 val AND 0x3F), encode_tab (drop_bit 12 val AND 0x3F),
          encode_tab (drop_bit 6 val AND 0x3F), StdPadding])"
| "Encode [a] =
     (let val = push_bit 16 (ucast a :: uint)
      in [encode_tab (drop_bit 18 val AND 0x3F), encode_tab (drop_bit 12 val AND 0x3F),
          StdPadding, StdPadding])"
| "Encode [] = []"

text \<open>
  The 24-bit value \<^verbatim>\<open>val\<close> that \<^verbatim>\<open>Encode\<close> builds from three bytes (from two or one, with
  zero for the missing ones).
\<close>

definition pack3 :: "byte \<Rightarrow> byte \<Rightarrow> byte \<Rightarrow> uint" where
  "pack3 a b c = push_bit 16 (ucast a) OR push_bit 8 (ucast b) OR ucast c"

definition EncodeToString :: "byte list \<Rightarrow> string" where
  "EncodeToString src = Encode src"

text \<open>
  The end of \<^verbatim>\<open>decodeQuantum\<close>: the four 6-bit values of \<open>dbuf\<close> are packed into 24 bits and
  the first \<open>dlen - 1\<close> of the three bytes are written.
\<close>

definition quantum_bytes :: "byte list \<Rightarrow> nat \<Rightarrow> byte list" where
  "quantum_bytes dbuf dlen =
     (let val = push_bit 18 (ucast (dbuf ! 0) :: uint) OR push_bit 12 (ucast (dbuf ! 1))
                OR push_bit 6 (ucast (dbuf ! 2)) OR ucast (dbuf ! 3)
      in take (dlen - 1) [ucast (drop_bit 16 val), ucast (drop_bit 8 val), ucast val])"

text \<open>Skipping line feeds and carriage returns; \<open>si\<close> is the offset into the input.\<close>

fun skip_newlines :: "string \<Rightarrow> nat \<Rightarrow> string \<times> nat" where
  "skip_newlines [] si = ([], si)"
| "skip_newlines (c # src) si =
     (if c = CHR 0x0A \<or> c = CHR 0x0D then skip_newlines src (si + 1) else (c # src, si))"

text \<open>
  After the padding of a quantum: newlines are skipped, anything else is trailing garbage;
  the bytes of the quantum are returned with the error in that case.
\<close>

definition finish_padding ::
  "nat \<Rightarrow> byte list \<Rightarrow> string \<Rightarrow> nat \<Rightarrow> string \<times> nat \<times> byte list \<times> error option" where
  "finish_padding j dbuf src si =
     (case skip_newlines src si of
        (rest, si') \<Rightarrow>
          (rest, si', quantum_bytes dbuf j,
           if rest \<noteq> [] then Some (CorruptInputError si') else None))"

text \<open>
  The loop of \<^verbatim>\<open>decodeQuantum\<close> over \<open>j\<close>, the number of 6-bit values read so far. The result
  is the unread input, the new offset, the decoded bytes and the error.
\<close>

fun decodeQuantum_loop ::
  "nat \<Rightarrow> byte list \<Rightarrow> string \<Rightarrow> nat \<Rightarrow> string \<times> nat \<times> byte list \<times> error option" where
  "decodeQuantum_loop j dbuf [] si =
     (if j = 0 then ([], si, [], None)
      else ([], si, [], Some (CorruptInputError (si - j))))"
| "decodeQuantum_loop j dbuf (c # src) si =
     (let out = decodeMap c in
      if out \<noteq> 0xFF then
        (if j = 3 then (src, si + 1, quantum_bytes (dbuf[j := out]) 4, None)
         else decodeQuantum_loop (j + 1) (dbuf[j := out]) src (si + 1))
      else if c = CHR 0x0A \<or> c = CHR 0x0D then decodeQuantum_loop j dbuf src (si + 1)
      else if c \<noteq> StdPadding then (src, si + 1, [], Some (CorruptInputError si))
      else if j = 0 \<or> j = 1 then (src, si + 1, [], Some (CorruptInputError si))
      else if j = 2 then
        (case skip_newlines src (si + 1) of
           ([], si2) \<Rightarrow> ([], si2, [], Some (CorruptInputError si2))
         | (c2 # src2, si2) \<Rightarrow>
             if c2 \<noteq> StdPadding then (src2, si2, [], Some (CorruptInputError (si2 - 1)))
             else finish_padding j dbuf src2 (si2 + 1))
      else finish_padding j dbuf src (si + 1))"

definition decodeQuantum :: "string \<Rightarrow> nat \<Rightarrow> string \<times> nat \<times> byte list \<times> error option" where
  "decodeQuantum src si = decodeQuantum_loop 0 [0, 0, 0, 0] src si"

text \<open>
  Each call of \<^verbatim>\<open>decodeQuantum\<close> on a non-empty input consumes at least one character: the
  loop of \<^verbatim>\<open>Decode\<close> terminates.
\<close>

lemma skip_newlines_length:
  "skip_newlines src si = (rest, si') \<Longrightarrow> length rest \<le> length src"
  by (induction src si rule: skip_newlines.induct) (auto split: if_splits)

lemma finish_padding_length:
  "finish_padding j dbuf src si = (rest, r) \<Longrightarrow> length rest \<le> length src"
  by (auto simp: finish_padding_def split: prod.splits dest: skip_newlines_length)

lemma padding_tail_length:
  assumes "skip_newlines src si = (c2 # src2, si2)"
    and "finish_padding j dbuf src2 si3 = (rest, r)"
  shows "length rest \<le> length src"
proof -
  have "length (c2 # src2) \<le> length src"
    using assms(1) by (rule skip_newlines_length)
  moreover have "length rest \<le> length src2"
    using assms(2) by (rule finish_padding_length)
  ultimately show ?thesis by simp
qed

lemma decodeQuantum_loop_length:
  "decodeQuantum_loop j dbuf src si = (rest, r) \<Longrightarrow> length rest \<le> length src"
proof (induction j dbuf src si arbitrary: rest r rule: decodeQuantum_loop.induct)
  case (1 j dbuf si)
  then show ?case by (simp split: if_splits)
next
  case (2 j dbuf c src si)
  show ?case
  proof (cases "decodeMap c \<noteq> 0xFF")
    case True
    then show ?thesis
      using "2.prems" "2.IH"(1) [of "decodeMap c" rest r]
      by (auto simp: Let_def split: if_splits)
  next
    case False
    note invalid = this
    show ?thesis
    proof (cases "c = CHR 0x0A \<or> c = CHR 0x0D")
      case True
      then show ?thesis
        using invalid "2.prems" "2.IH"(2) [of "decodeMap c" rest r]
        by (auto simp: Let_def)
    next
      case False
      then show ?thesis
        using invalid "2.prems"
        by (auto simp: Let_def split: if_splits prod.splits list.splits
            dest: skip_newlines_length finish_padding_length padding_tail_length)
    qed
  qed
qed

lemma decodeQuantum_loop_Cons_length:
  "decodeQuantum_loop j dbuf (c # src) si = (rest, r) \<Longrightarrow> length rest \<le> length src"
  by (auto simp: Let_def split: if_splits prod.splits list.splits
      dest: decodeQuantum_loop_length skip_newlines_length finish_padding_length
        padding_tail_length)

lemma decodeQuantum_shorter:
  assumes "src \<noteq> []" and "decodeQuantum src si = (rest, r)"
  shows "length rest < length src"
proof -
  from assms(1) obtain c cs where src: "src = c # cs"
    by (cases src) auto
  with assms(2) have "decodeQuantum_loop 0 [0, 0, 0, 0] (c # cs) si = (rest, r)"
    by (simp only: decodeQuantum_def)
  then have "length rest \<le> length cs"
    by (rule decodeQuantum_loop_Cons_length)
  with src show ?thesis by simp
qed

text \<open>
  \<^verbatim>\<open>Decode\<close>: quantum after quantum until the input is used up; the first error ends the
  loop, and the bytes decoded so far are returned with it.
\<close>

function Decode_loop :: "string \<Rightarrow> nat \<Rightarrow> byte list \<times> error option" where
  "Decode_loop src si =
     (if src = [] then ([], None)
      else (case decodeQuantum src si of
              (rest, nsi, bs, err) \<Rightarrow>
                if err \<noteq> None then (bs, err)
                else (case Decode_loop rest nsi of (bs', err') \<Rightarrow> (bs @ bs', err'))))"
  by pat_completeness auto
termination
  by (relation "measure (\<lambda>(src, si). length src)")
    (auto intro: decodeQuantum_shorter [OF _ sym])

declare Decode_loop.simps [simp del]

text \<open>\<^verbatim>\<open>DecodeString\<close> returns the decoded bytes and the error (\<open>None\<close> is Go's \<^verbatim>\<open>nil\<close>).\<close>

definition DecodeString :: "string \<Rightarrow> byte list \<times> error option" where
  "DecodeString s = Decode_loop s 0"

text \<open>
  A character the decoder can never accept: it is not in the alphabet, and it is neither a
  newline, a carriage return nor the padding character.
\<close>

definition illegal_char :: "char \<Rightarrow> bool" where
  "illegal_char c \<longleftrightarrow>
     decodeMap c = 0xFF \<and> c \<noteq> CHR 0x0A \<and> c \<noteq> CHR 0x0D \<and> c \<noteq> StdPadding"

section \<open>The Vault secret manager\<close>

subsection \<open>Package variables and the handle\<close>

definition DefaultVaultKVSecretPath :: string where
  "DefaultVaultKVSecretPath = ''kube/fr/secret''"

definition DefaultVaultAddress :: string where
  "DefaultVaultAddress = ''http://vault-active.vault.svc.cluster.local:8200''"

definition DefaultVaultKubeRoleName :: string where
  "DefaultVaultKubeRoleName = ''fr-secret-agent''"

definition DefaultSecretKey :: string where
  "DefaultSecretKey = ''value''"

definition DefaultKVMount :: string where
  "DefaultKVMount = ''secret''"

text \<open>
  The objects of the Vault client library: a client bound to its address, the Kubernetes
  auth method bound to its role, the session a login returns.
\<close>

datatype vault_Client = Client string

datatype KubernetesAuth = KubernetesAuth string

datatype vault_Secret = Secret string

record secretManagerVault =
  secretPath :: string
  kvMount :: string
  vaultClient :: vault_Client

text \<open>
  The fields of \<^verbatim>\<open>v1alpha1.AppConfig\<close> that \<^verbatim>\<open>newVault\<close> reads (the type is declared in a
  package outside this source file).
\<close>

record AppConfig =
  VaultAddress :: string
  VaultKubeRole :: string
  VaultKVSecretPath :: string
  VaultKVMount :: string

text \<open>
  The three library calls of the bootstrap, as parameters: \<^verbatim>\<open>vault.NewClient\<close> on a
  configuration with the given address, \<^verbatim>\<open>auth.NewKubernetesAuth\<close> on a role name, and
  \<^verbatim>\<open>client.Auth().Login\<close>, which returns an error, no session (\<^verbatim>\<open>nil\<close>) or a session.
\<close>

record vault_api =
  NewClient :: "string \<Rightarrow> error + vault_Client"
  NewKubernetesAuth :: "string \<Rightarrow> error + KubernetesAuth"
  Login :: "vault_Client \<Rightarrow> KubernetesAuth \<Rightarrow> error + vault_Secret option"

subsection \<open>newVault\<close>

text \<open>
  \<^verbatim>\<open>newVault(ctx, cfg, rClient, cloudCredNS)\<close>. Each of the four settings starts as the
  package default and is replaced by the field of \<open>cfg\<close> when that field is not the empty
  string. Then, in this order: \<^verbatim>\<open>vault.NewClient\<close> on the default configuration with
  \<^verbatim>\<open>config.Address = vaultAddr\<close>, \<^verbatim>\<open>auth.NewKubernetesAuth(vaultRole)\<close>,
  \<^verbatim>\<open>client.Auth().Login(ctx, k8sAuth)\<close>; an error of any of the three, and a \<^verbatim>\<open>nil\<close> session,
  returns \<^verbatim>\<open>nil\<close> and an error made by \<^verbatim>\<open>fmt.Errorf\<close>. Otherwise the handle is returned
  with a \<^verbatim>\<open>nil\<close> error. The context only travels to the login; \<^verbatim>\<open>rClient\<close> and
  \<^verbatim>\<open>cloudCredNS\<close> are not used by the function.
\<close>

definition newVault :: "vault_api \<Rightarrow> AppConfig \<Rightarrow> error + secretManagerVault" where
  "newVault api cfg =
     (let vaultAddr = (if VaultAddress cfg \<noteq> [] then VaultAddress cfg else DefaultVaultAddress);
          vaultRole = (if VaultKubeRole cfg \<noteq> [] then VaultKubeRole cfg
                       else DefaultVaultKubeRoleName);
          vaultSecretPath = (if VaultKVSecretPath cfg \<noteq> [] then VaultKVSecretPath cfg
                             else DefaultVaultKVSecretPath);
          vaultKVMount = (if VaultKVMount cfg \<noteq> [] then VaultKVMount cfg else DefaultKVMount)
      in case NewClient api vaultAddr of
           Inl err \<Rightarrow> Inl (Errorf ''Vault: unable to initialize Vault client: %w'' (Some err))
         | Inr client \<Rightarrow>
             (case NewKubernetesAuth api vaultRole of
                Inl err \<Rightarrow>
                  Inl (Errorf ''Vault: unable to initialize Kubernetes auth method: %w''
                    (Some err))
              | Inr k8sAuth \<Rightarrow>
                  (case Login api client k8sAuth of
                     Inl err \<Rightarrow>
                       Inl (Errorf ''Vault: unable to log in with Kubernetes auth: %w''
                         (Some err))
                   | Inr None \<Rightarrow>
                       Inl (Errorf ''Vault: no auth info was returned after login'' None)
                   | Inr (Some authInfo) \<Rightarrow>
                       Inr \<lparr>secretPath = vaultSecretPath, kvMount = vaultKVMount,
                            vaultClient = client\<rparr>)))"

subsection \<open>The KV v2 backend\<close>

text \<open>
  The Vault client library and the server behind the handle's client, as explicit state:
  the record the server returns under each request path, and the failure (transport,
  authorisation, server) that a request meets, if any. A write is an upsert; a read of a
  path that holds nothing fails with \<open>ErrSecretNotFound\<close>.

  Two things the client library does to a request are parameters of the model.
  \<open>request_path\<close> is the URL path a request for a mount and a secret path is sent to: the
  library joins the mount, \<^verbatim>\<open>data\<close> and the secret path and cleans the result, so two
  different secret paths can reach the same record. \<open>wire\<close> is what a Go string is after
  the client has encoded it as JSON and the answer has been decoded again: the encoder
  replaces every byte that is not part of a valid UTF-8 sequence, so a read returns a
  string field as it was written only when \<open>wire\<close> leaves it unchanged. The keys of the
  records of this program are ASCII literals, which the encoding keeps.
\<close>

fun wire_json :: "(string \<Rightarrow> string) \<Rightarrow> json \<Rightarrow> json" where
  "wire_json f (JString s) = JString (f s)"
| "wire_json f (JNumber n) = JNumber n"
| "wire_json f (JBool b) = JBool b"
| "wire_json f JNull = JNull"
| "wire_json f (JArray vs) = JArray (map (wire_json f) vs)"
| "wire_json f (JObject kvs) = JObject (map (\<lambda>(key, v). (f key, wire_json f v)) kvs)"

definition wire_data :: "(string \<Rightarrow> string) \<Rightarrow> (string \<rightharpoonup> json) \<Rightarrow> (string \<rightharpoonup> json)" where
  "wire_data f data = (\<lambda>key. map_option (wire_json f) (data key))"

record vault_server =
  kv :: "string \<rightharpoonup> (string \<rightharpoonup> json)"
  fault :: "error option"
  request_path :: "string \<Rightarrow> string \<Rightarrow> string"
  wire :: "string \<Rightarrow> string"

record KVSecret =
  Data :: "string \<rightharpoonup> json"

definition KVv2_Put ::
  "vault_server \<Rightarrow> string \<Rightarrow> string \<Rightarrow> (string \<rightharpoonup> json) \<Rightarrow> error option \<times> vault_server" where
  "KVv2_Put srv mount path data =
     (case fault srv of
        Some err \<Rightarrow> (Some err, srv)
      | None \<Rightarrow>
          (None, srv\<lparr>kv := (kv srv)(request_path srv mount path \<mapsto> wire_data (wire srv) data)\<rparr>))"

definition KVv2_Get :: "vault_server \<Rightarrow> string \<Rightarrow> string \<Rightarrow> error + KVSecret" where
  "KVv2_Get srv mount path =
     (case fault srv of
        Some err \<Rightarrow> Inl err
      | None \<Rightarrow>
          (case kv srv (request_path srv mount path) of
             None \<Rightarrow> Inl ErrSecretNotFound
           | Some data \<Rightarrow> Inr \<lparr>Data = data\<rparr>))"

text \<open>The field of the record that the server holds under a request path, if any.\<close>

definition stored_field :: "vault_server \<Rightarrow> string \<Rightarrow> string \<Rightarrow> json option" where
  "stored_field srv url key = (case kv srv url of None \<Rightarrow> None | Some data \<Rightarrow> data key)"

text \<open>
  The instance of \<open>wire\<close> for \<^verbatim>\<open>encoding/json\<close>: the string is read rune by rune as
  \<^verbatim>\<open>utf8.DecodeRuneInString\<close> does; a byte that does not start a well-formed sequence
  (\<open>rune_width\<close> is 0) becomes the three bytes of U+FFFD, a well-formed sequence is kept.
  The escapes the encoder writes for the other characters are undone by the decoder.
\<close>

definition continuation :: "nat \<Rightarrow> bool" where
  "continuation b \<longleftrightarrow> 0x80 \<le> b \<and> b \<le> 0xBF"

definition rune_width :: "nat \<Rightarrow> nat \<Rightarrow> nat \<Rightarrow> nat \<Rightarrow> nat" where
  "rune_width a b c d =
     (if a < 0x80 then 1
      else if 0xC2 \<le> a \<and> a \<le> 0xDF \<and> continuation b then 2
      else if a = 0xE0 \<and> 0xA0 \<le> b \<and> b \<le> 0xBF \<and> continuation c then 3
      else if ((0xE1 \<le> a \<and> a \<le> 0xEC) \<or> a = 0xEE \<or> a = 0xEF)
              \<and> continuation b \<and> continuation c then 3
      else if a = 0xED \<and> 0x80 \<le> b \<and> b \<le> 0x9F \<and> continuation c then 3
      else if a = 0xF0 \<and> 0x90 \<le> b \<and> b \<le> 0xBF \<and> continuation c \<and> continuation d then 4
      else if 0xF1 \<le> a \<and> a \<le> 0xF3 \<and> continuation b \<and> continuation c \<and> continuation d
        then 4
      else if a = 0xF4 \<and> 0x80 \<le> b \<and> b \<le> 0x8F \<and> continuation c \<and> continuation d then 4
      else 0)"

definition byte_at :: "string \<Rightarrow> nat \<Rightarrow> nat" where
  "byte_at s i = (if i < length s then of_char (s ! i) else 0)"

fun json_string :: "string \<Rightarrow> string" where
  "json_string [] = []"
| "json_string (a # s) =
     (let w = rune_width (of_char a) (byte_at s 0) (byte_at s 1) (byte_at s 2)
      in if w = 0 then [CHR 0xEF, CHR 0xBF, CHR 0xBD] @ json_string s
         else a # take (w - 1) s @ json_string (drop (w - 1) s))"

subsection \<open>Secret types and the encoding of a secret\<close>

text \<open>
  The constants \<^verbatim>\<open>TypeKeystore\<close>, \<^verbatim>\<open>TypePEM\<close> and \<^verbatim>\<open>TypePassword\<close> are declared in another
  file of the package, which is not part of this source: their values are parameters of
  the model. They are the constant cases of one \<^verbatim>\<open>switch\<close>, and the Go compiler rejects
  a \<^verbatim>\<open>switch\<close> with two equal constant cases: \<open>distinct_types\<close> states that they differ, and
  the theorems that tell the types apart assume it.
\<close>

record secret_types =
  TypeKeystore :: string
  TypePEM :: string
  TypePassword :: string

definition distinct_types :: "secret_types \<Rightarrow> bool" where
  "distinct_types k = distinct [TypeKeystore k, TypePEM k, TypePassword k]"

text \<open>\<^verbatim>\<open>getSecretPath\<close>: \<^verbatim>\<open>fmt.Sprintf("%s/%s", vm.secretPath, secretName)\<close>.\<close>

definition getSecretPath :: "secretManagerVault \<Rightarrow> string \<Rightarrow> string" where
  "getSecretPath vm secretName = secretPath vm @ ''/'' @ secretName"

text \<open>
  \<^verbatim>\<open>getSecretStrValue\<close> and \<^verbatim>\<open>getSecretByteValue\<close>: a \<^verbatim>\<open>switch\<close> on the secret type with the
  cases \<^verbatim>\<open>TypeKeystore\<close>, \<^verbatim>\<open>TypePEM\<close>, \<^verbatim>\<open>TypePassword\<close> and \<^verbatim>\<open>default\<close>, tried in this
  order. The first encodes with \<^verbatim>\<open>base64.StdEncoding.EncodeToString(data)\<close> or converts with
  \<^verbatim>\<open>string(data)\<close>; the second returns \<^verbatim>\<open>base64.StdEncoding.DecodeString(data)\<close>, bytes and
  error as they come, or \<^verbatim>\<open>[]byte(data), nil\<close>. Neither uses its receiver.
\<close>

definition getSecretStrValue :: "secret_types \<Rightarrow> byte list \<Rightarrow> string \<Rightarrow> string" where
  "getSecretStrValue k data secretType =
     (if secretType = TypeKeystore k then EncodeToString data
      else if secretType = TypePEM k then string_of_bytes data
      else if secretType = TypePassword k then string_of_bytes data
      else EncodeToString data)"

definition getSecretByteValue :: "secret_types \<Rightarrow> string \<Rightarrow> string \<Rightarrow> byte list \<times> error option" where
  "getSecretByteValue k data secretType =
     (if secretType = TypeKeystore k then DecodeString data
      else if secretType = TypePEM k then (bytes_of_string data, None)
      else if secretType = TypePassword k then (bytes_of_string data, None)
      else DecodeString data)"

subsection \<open>EnsureSecret and LoadSecret\<close>

text \<open>The type assertion \<^verbatim>\<open>v.(string)\<close> on the value found under a key, if any.\<close>

definition assert_string :: "json option \<Rightarrow> string \<times> bool" where
  "assert_string v = (case v of Some (JString s) \<Rightarrow> (s, True) | _ \<Rightarrow> ([], False))"

text \<open>
  \<^verbatim>\<open>EnsureSecret\<close>: the payload is the map literal with the keys \<^verbatim>\<open>DefaultSecretKey\<close> and
  \<^verbatim>\<open>"secret_type"\<close>; it is written with \<^verbatim>\<open>vm.vaultClient.KVv2(vm.kvMount).Put(ctx, path, payload)\<close>,
  and an error of the write is returned wrapped by \<^verbatim>\<open>errors.WithStack\<close>. The state of the
  server is passed in and returned.
\<close>

definition EnsureSecret ::
  "secret_types \<Rightarrow> secretManagerVault \<Rightarrow> string \<Rightarrow> byte list \<Rightarrow> string \<Rightarrow> vault_server
     \<Rightarrow> error option \<times> vault_server" where
  "EnsureSecret k vm secretName val secretType srv =
     (let secretValue = getSecretStrValue k val secretType;
          payload = [DefaultSecretKey \<mapsto> JString secretValue,
                     ''secret_type'' \<mapsto> JString secretType];
          path = getSecretPath vm secretName
      in case KVv2_Put srv (kvMount vm) path payload of
           (Some err, srv') \<Rightarrow> (Some (WithStack err), srv')
         | (None, srv') \<Rightarrow> (None, srv'))"

text \<open>
  \<^verbatim>\<open>LoadSecret\<close>: the record is read with \<^verbatim>\<open>vm.vaultClient.KVv2(vm.kvMount).Get(ctx, path)\<close>.
  An error of the read returns \<^verbatim>\<open>[]byte{}, nil\<close>; so does a failed type assertion
  \<^verbatim>\<open>secret.Data[DefaultSecretKey].(string)\<close>. Otherwise the result of \<^verbatim>\<open>getSecretByteValue\<close>
  is returned, bytes and error.
\<close>

definition LoadSecret ::
  "secret_types \<Rightarrow> secretManagerVault \<Rightarrow> string \<Rightarrow> string \<Rightarrow> vault_server
     \<Rightarrow> byte list \<times> error option" where
  "LoadSecret k vm secretName secretType srv =
     (let path = getSecretPath vm secretName
      in case KVv2_Get srv (kvMount vm) path of
           Inl err \<Rightarrow> ([], None)
         | Inr secret \<Rightarrow>
             (case assert_string (Data secret DefaultSecretKey) of
                (val, ok) \<Rightarrow>
                  if \<not> ok then ([], None)
                  else getSecretByteValue k val secretType))"

subsection \<open>The resolution rule and example values\<close>

text \<open>
  The rule the specification gives for each configuration field: a non-empty override is
  used verbatim, an unset (empty) field takes the default.
\<close>

definition override_or_default :: "string \<Rightarrow> string \<Rightarrow> string" where
  "override_or_default override dflt = (if override = [] then dflt else override)"

definition resolved_address :: "AppConfig \<Rightarrow> string" where
  "resolved_address cfg =
     override_or_default (VaultAddress cfg) ''http://vault-active.vault.svc.cluster.local:8200''"

definition resolved_role :: "AppConfig \<Rightarrow> string" where
  "resolved_role cfg = override_or_default (VaultKubeRole cfg) ''fr-secret-agent''"

definition resolved_prefix :: "AppConfig \<Rightarrow> string" where
  "resolved_prefix cfg = override_or_default (VaultKVSecretPath cfg) ''kube/fr/secret''"

definition resolved_mount :: "AppConfig \<Rightarrow> string" where
  "resolved_mount cfg = override_or_default (VaultKVMount cfg) ''secret''"

text \<open>
  Concrete values on which the theorems below are evaluated: the handle and the empty
  configuration of an all-default bootstrap, three distinct type tags, a server that
  holds nothing, a server that holds one record under the mount \<open>secret\<close>, and library
  calls that succeed. The servers encode strings as \<^verbatim>\<open>encoding/json\<close> does and are
  reached under the path the client library builds, \<^verbatim>\<open>mount/data/path\<close>; the paths of
  the examples have nothing to clean.
\<close>

definition default_handle :: secretManagerVault where
  "default_handle = \<lparr>secretPath = ''kube/fr/secret'', kvMount = ''secret'',
     vaultClient = Client ''http://vault-active.vault.svc.cluster.local:8200''\<rparr>"

definition example_types :: secret_types where
  "example_types = \<lparr>TypeKeystore = ''keystore'', TypePEM = ''pem'', TypePassword = ''password''\<rparr>"

definition example_request_path :: "string \<Rightarrow> string \<Rightarrow> string" where
  "example_request_path mount path = mount @ ''/data/'' @ path"

definition empty_server :: vault_server where
  "empty_server = \<lparr>kv = Map.empty, fault = None, request_path = example_request_path,
     wire = json_string\<rparr>"

definition server_with :: "string \<Rightarrow> (string \<rightharpoonup> json) \<Rightarrow> vault_server" where
  "server_with path data = empty_server\<lparr>kv := [''secret/data/'' @ path \<mapsto> data]\<rparr>"

definition default_config :: AppConfig where
  "default_config = \<lparr>VaultAddress = [], VaultKubeRole = [], VaultKVSecretPath = [],
     VaultKVMount = []\<rparr>"

definition example_api :: vault_api where
  "example_api = \<lparr>NewClient = (\<lambda>addr. Inr (Client addr)),
     NewKubernetesAuth = (\<lambda>role. Inr (KubernetesAuth role)),
     Login = (\<lambda>client k8sAuth. Inr (Some (Secret ''s.token'')))\<rparr>"

section \<open>Decoding inverts encoding\<close>

subsection \<open>The alphabet\<close>

lemma alphabet_table: "list_all (\<lambda>i. decodeMap (encodeStd ! i) = of_nat i) [0..<64]"
  by code_simp

lemma decodeMap_alphabet: "i < 64 \<Longrightarrow> decodeMap (encodeStd ! i) = of_nat i"
  using alphabet_table by (simp add: list_all_iff)

lemma sextet_bound: "unat ((x :: uint) AND 0x3F) < 64"
proof -
  have "x AND 0x3F \<le> 0x3F" by (rule word_and_le1)
  then show ?thesis by (simp add: word_le_nat_alt)
qed

lemma decodeMap_encode_tab:
  "decodeMap (encode_tab (x AND 0x3F)) = ucast (x AND 0x3F)"
  using decodeMap_alphabet [OF sextet_bound [of x]]
  by (simp add: encode_tab_def)

lemma decodeMap_padding: "decodeMap CHR ''='' = 0xFF"
  by code_simp

subsection \<open>Six bits at a time\<close>

lemma sextet_mask: "(0x3F :: uint) = mask 6"
  by (simp add: mask_eq_exp_minus_1)

lemma sextet_ucast: "ucast (ucast ((x :: uint) AND 0x3F) :: byte) = x AND 0x3F"
  unfolding sextet_mask
  by (rule bit_word_eqI) (auto simp: bit_simps)

lemma sextet_not_invalid: "ucast ((x :: uint) AND 0x3F) \<noteq> (0xFF :: byte)"
proof
  assume "ucast (x AND 0x3F) = (0xFF :: byte)"
  then have "ucast (ucast (x AND 0x3F) :: byte) = (ucast (0xFF :: byte) :: uint)"
    by simp
  then have "x AND 0x3F = 0xFF"
    by (simp add: sextet_ucast)
  then have "unat (x AND 0x3F) = 255"
    by simp
  with sextet_bound [of x] show False
    by simp
qed

lemma sextet_glue:
  "push_bit n (drop_bit n (x :: uint) AND mask m) OR take_bit n x = take_bit (n + m) x"
  by (rule bit_word_eqI) (auto simp: bit_simps)

lemma pack3_take_bit: "take_bit 24 (pack3 a b c) = pack3 a b c"
  unfolding pack3_def
  by (rule bit_word_eqI) (auto simp: bit_simps dest: bit_imp_le_length)

lemma pack3_byte0: "ucast (drop_bit 16 (pack3 a b c)) = a"
  unfolding pack3_def
  by (rule bit_word_eqI) (auto simp: bit_simps dest: bit_imp_le_length)

lemma pack3_byte1: "ucast (drop_bit 8 (pack3 a b c)) = b"
  unfolding pack3_def
  by (rule bit_word_eqI) (auto simp: bit_simps dest: bit_imp_le_length)

lemma pack3_byte2: "ucast (pack3 a b c) = c"
  unfolding pack3_def
  by (rule bit_word_eqI) (auto simp: bit_simps dest: bit_imp_le_length)

lemma pack3_low_zero: "pack3 a b 0 AND 0x3F = 0"
  unfolding pack3_def sextet_mask
  by (rule bit_word_eqI) (auto simp: bit_simps)

lemma pack3_mid_zero: "drop_bit 6 (pack3 a 0 0) AND 0x3F = 0"
  unfolding pack3_def sextet_mask
  by (rule bit_word_eqI) (auto simp: bit_simps)

lemma sextets_assemble:
  "push_bit 18 (ucast (ucast (drop_bit 18 (pack3 a b c) AND 0x3F) :: byte) :: uint)
     OR push_bit 12 (ucast (ucast (drop_bit 12 (pack3 a b c) AND 0x3F) :: byte))
     OR push_bit 6 (ucast (ucast (drop_bit 6 (pack3 a b c) AND 0x3F) :: byte))
     OR ucast (ucast (pack3 a b c AND 0x3F) :: byte) = pack3 a b c"
proof -
  let ?v = "pack3 a b c"
  have 1: "push_bit 6 (drop_bit 6 ?v AND mask 6) OR take_bit 6 ?v = take_bit 12 ?v"
    using sextet_glue [of 6 ?v 6] by simp
  have 2: "push_bit 12 (drop_bit 12 ?v AND mask 6) OR take_bit 12 ?v = take_bit 18 ?v"
    using sextet_glue [of 12 ?v 6] by simp
  have 3: "push_bit 18 (drop_bit 18 ?v AND mask 6) OR take_bit 18 ?v = take_bit 24 ?v"
    using sextet_glue [of 18 ?v 6] by simp
  have 4: "?v AND mask 6 = take_bit 6 ?v"
    by (simp add: take_bit_eq_mask)
  show ?thesis
    unfolding sextet_ucast unfolding sextet_mask 4 1 2 3 pack3_take_bit ..
qed

lemma quantum_bytes_sextets:
  "quantum_bytes [ucast (drop_bit 18 (pack3 a b c) AND 0x3F),
     ucast (drop_bit 12 (pack3 a b c) AND 0x3F),
     ucast (drop_bit 6 (pack3 a b c) AND 0x3F), ucast (pack3 a b c AND 0x3F)] dlen
   = take (dlen - 1) [a, b, c]"
  by (simp add: quantum_bytes_def sextets_assemble pack3_byte0 pack3_byte1 pack3_byte2)

subsection \<open>One quantum\<close>

lemma decodeQuantum_loop_steps:
  "decodeQuantum_loop 0 dbuf (encode_tab (x AND 0x3F) # src) si =
     decodeQuantum_loop (Suc 0) (dbuf[0 := ucast (x AND 0x3F)]) src (Suc si)"
  "decodeQuantum_loop (Suc 0) dbuf (encode_tab (x AND 0x3F) # src) si =
     decodeQuantum_loop (Suc (Suc 0)) (dbuf[Suc 0 := ucast (x AND 0x3F)]) src (Suc si)"
  "decodeQuantum_loop (Suc (Suc 0)) dbuf (encode_tab (x AND 0x3F) # src) si =
     decodeQuantum_loop (Suc (Suc (Suc 0))) (dbuf[Suc (Suc 0) := ucast (x AND 0x3F)]) src
       (Suc si)"
  "decodeQuantum_loop (Suc (Suc (Suc 0))) dbuf (encode_tab (x AND 0x3F) # src) si =
     (src, Suc si, quantum_bytes (dbuf[Suc (Suc (Suc 0)) := ucast (x AND 0x3F)]) 4, None)"
  by (simp_all add: decodeMap_encode_tab sextet_not_invalid numeral_eq_Suc)

lemma decodeQuantum_full:
  "decodeQuantum (encode_tab (drop_bit 18 (pack3 a b c) AND 0x3F) #
      encode_tab (drop_bit 12 (pack3 a b c) AND 0x3F) #
      encode_tab (drop_bit 6 (pack3 a b c) AND 0x3F) #
      encode_tab (pack3 a b c AND 0x3F) # src) si
   = (src, si + 4, [a, b, c], None)"
  unfolding decodeQuantum_def
  by (simp only: decodeQuantum_loop_steps)
    (simp add: quantum_bytes_sextets [of a b c 4, simplified])

lemma decodeQuantum_two_bytes:
  "decodeQuantum [encode_tab (drop_bit 18 (pack3 a b 0) AND 0x3F),
      encode_tab (drop_bit 12 (pack3 a b 0) AND 0x3F),
      encode_tab (drop_bit 6 (pack3 a b 0) AND 0x3F), StdPadding] si
   = ([], si + 4, [a, b], None)"
proof -
  have "decodeQuantum_loop (Suc (Suc (Suc 0))) [ucast (drop_bit 18 (pack3 a b 0) AND 0x3F),
      ucast (drop_bit 12 (pack3 a b 0) AND 0x3F), ucast (drop_bit 6 (pack3 a b 0) AND 0x3F), 0]
      [StdPadding] (Suc (Suc (Suc si))) = ([], si + 4, [a, b], None)"
    using quantum_bytes_sextets [of a b 0 "Suc (Suc (Suc 0))"]
    by (simp add: decodeMap_padding finish_padding_def pack3_low_zero StdPadding_def Let_def)
  then show ?thesis
    unfolding decodeQuantum_def
    by (simp only: decodeQuantum_loop_steps) simp
qed

lemma decodeQuantum_one_byte:
  "decodeQuantum [encode_tab (drop_bit 18 (pack3 a 0 0) AND 0x3F),
      encode_tab (drop_bit 12 (pack3 a 0 0) AND 0x3F), StdPadding, StdPadding] si
   = ([], si + 4, [a], None)"
proof -
  have "decodeQuantum_loop (Suc (Suc 0)) [ucast (drop_bit 18 (pack3 a 0 0) AND 0x3F),
      ucast (drop_bit 12 (pack3 a 0 0) AND 0x3F), 0, 0]
      [StdPadding, StdPadding] (Suc (Suc si)) = ([], si + 4, [a], None)"
    using quantum_bytes_sextets [of a 0 0 "Suc (Suc 0)"]
    by (simp add: decodeMap_padding finish_padding_def pack3_low_zero pack3_mid_zero
        StdPadding_def Let_def)
  then show ?thesis
    unfolding decodeQuantum_def
    by (simp only: decodeQuantum_loop_steps) simp
qed

subsection \<open>The whole input\<close>

lemma Decode_loop_Nil: "Decode_loop [] si = ([], None)"
  by (subst Decode_loop.simps) simp

lemma Decode_loop_Encode: "Decode_loop (Encode src) si = (src, None)"
proof (induction src arbitrary: si rule: Encode.induct)
  case (1 a b c src)
  have "Encode (a # b # c # src) =
      encode_tab (drop_bit 18 (pack3 a b c) AND 0x3F) #
      encode_tab (drop_bit 12 (pack3 a b c) AND 0x3F) #
      encode_tab (drop_bit 6 (pack3 a b c) AND 0x3F) #
      encode_tab (pack3 a b c AND 0x3F) # Encode src"
    by (simp add: pack3_def Let_def)
  then show ?case
    using "1.IH" [of _ "si + 4"]
    by (subst Decode_loop.simps) (simp add: decodeQuantum_full)
next
  case (2 a b)
  have "Encode [a, b] = [encode_tab (drop_bit 18 (pack3 a b 0) AND 0x3F),
      encode_tab (drop_bit 12 (pack3 a b 0) AND 0x3F),
      encode_tab (drop_bit 6 (pack3 a b 0) AND 0x3F), StdPadding]"
    by (simp add: pack3_def Let_def)
  then show ?case
    by (subst Decode_loop.simps) (simp add: decodeQuantum_two_bytes Decode_loop_Nil)
next
  case (3 a)
  have "Encode [a] = [encode_tab (drop_bit 18 (pack3 a 0 0) AND 0x3F),
      encode_tab (drop_bit 12 (pack3 a 0 0) AND 0x3F), StdPadding, StdPadding]"
    by (simp add: pack3_def Let_def)
  then show ?case
    by (subst Decode_loop.simps) (simp add: decodeQuantum_one_byte Decode_loop_Nil)
next
  case 4
  show ?case by (simp add: Decode_loop_Nil)
qed

lemma DecodeString_EncodeToString: "DecodeString (EncodeToString src) = (src, None)"
  by (simp add: DecodeString_def EncodeToString_def Decode_loop_Encode)

lemma bytes_of_string_of_bytes: "bytes_of_string (string_of_bytes data) = data"
proof -
  have "(of_char (char_of (unat b)) :: byte) = b" for b :: byte
  proof -
    have "(of_char (char_of (unat b)) :: byte) = of_nat (of_char (char_of (unat b)))"
      by (simp only: of_nat_of_char)
    also have "\<dots> = of_nat (unat b mod 256)"
      by (simp only: of_char_of)
    also have "\<dots> = b"
      using unsigned_less [of b, where 'a = nat] by simp
    finally show ?thesis .
  qed
  then show ?thesis
    by (simp add: bytes_of_string_def string_of_bytes_def map_idI)
qed

subsection \<open>Input the decoder rejects\<close>

lemma skip_newlines_keeps:
  "skip_newlines src si = (rest, si') \<Longrightarrow> c \<in> set src \<Longrightarrow> c \<noteq> CHR 0x0A \<Longrightarrow>
     c \<noteq> CHR 0x0D \<Longrightarrow> c \<in> set rest"
  by (induction src si rule: skip_newlines.induct) (auto split: if_splits)

lemma finish_padding_illegal:
  assumes "finish_padding j dbuf src si = (rest, nsi, bs, None)"
    and "illegal_char c"
  shows "c \<notin> set src"
proof
  assume "c \<in> set src"
  obtain r s where sk: "skip_newlines src si = (r, s)"
    by (cases "skip_newlines src si")
  with assms(1) have "r = []"
    by (auto simp: finish_padding_def split: if_splits)
  moreover have "c \<in> set r"
    using sk \<open>c \<in> set src\<close> assms(2) by (auto simp: illegal_char_def dest: skip_newlines_keeps)
  ultimately show False by simp
qed

lemma decodeQuantum_loop_illegal:
  "decodeQuantum_loop j dbuf src si = (rest, nsi, bs, None) \<Longrightarrow> illegal_char c \<Longrightarrow>
     c \<in> set src \<Longrightarrow> c \<in> set rest"
proof (induction j dbuf src si arbitrary: rest nsi bs rule: decodeQuantum_loop.induct)
  case (1 j dbuf si)
  then show ?case by simp
next
  case (2 j dbuf c' src si)
  show ?case
  proof (cases "decodeMap c' \<noteq> 0xFF")
    case True
    with "2.prems"(2,3) have "c \<in> set src"
      by (auto simp: illegal_char_def)
    with True show ?thesis
      using "2.prems"(1,2) "2.IH"(1) [of "decodeMap c'" rest nsi bs]
      by (auto simp: Let_def split: if_splits)
  next
    case False
    note invalid = this
    show ?thesis
    proof (cases "c' = CHR 0x0A \<or> c' = CHR 0x0D")
      case True
      with "2.prems"(2,3) have "c \<in> set src"
        by (auto simp: illegal_char_def)
      with True invalid show ?thesis
        using "2.prems"(1,2) "2.IH"(2) [of "decodeMap c'" rest nsi bs]
        by (auto simp: Let_def)
    next
      case False
      with invalid "2.prems"(1) have pad: "c' = StdPadding"
        by (auto simp: Let_def split: if_splits)
      with "2.prems"(2,3) have mem: "c \<in> set src"
        by (auto simp: illegal_char_def)
      show ?thesis
      proof (cases "j = 2")
        case True
        obtain r s where sk: "skip_newlines src (si + 1) = (r, s)"
          by (cases "skip_newlines src (si + 1)")
        have cr: "c \<in> set r"
          using sk mem "2.prems"(2) by (auto simp: illegal_char_def dest: skip_newlines_keeps)
        then obtain c2 src2 where r: "r = c2 # src2"
          by (cases r) auto
        with True False invalid pad sk "2.prems"(1)
        have c2: "c2 = StdPadding" and fin: "finish_padding j dbuf src2 (s + 1) = (rest, nsi, bs, None)"
          by (auto simp: Let_def split: if_splits)
        from cr r c2 "2.prems"(2) have "c \<in> set src2"
          by (auto simp: illegal_char_def)
        with finish_padding_illegal [OF fin "2.prems"(2)] show ?thesis
          by simp
      next
        case notwo: False
        with False invalid pad "2.prems"(1)
        have fin: "finish_padding j dbuf src (si + 1) = (rest, nsi, bs, None)"
          by (auto simp: Let_def split: if_splits)
        with finish_padding_illegal [OF fin "2.prems"(2)] mem show ?thesis
          by simp
      qed
    qed
  qed
qed

lemma Decode_loop_illegal:
  "illegal_char c \<Longrightarrow> c \<in> set src \<Longrightarrow> snd (Decode_loop src si) \<noteq> None"
proof (induction src si rule: Decode_loop.induct)
  case (1 src si)
  from "1.prems"(2) have ne: "src \<noteq> []" by auto
  obtain rest nsi bs err where q: "decodeQuantum src si = (rest, nsi, bs, err)"
    by (cases "decodeQuantum src si") auto
  show ?case
  proof (cases err)
    case None
    with q have "c \<in> set rest"
      using "1.prems" by (auto simp: decodeQuantum_def dest: decodeQuantum_loop_illegal)
    then have "snd (Decode_loop rest nsi) \<noteq> None"
      using "1.IH" [of rest "(nsi, bs, err)" nsi "(bs, err)" bs err] ne q None "1.prems"(1)
      by simp
    with ne q None show ?thesis
      by (subst Decode_loop.simps) (auto split: prod.splits)
  next
    case (Some e)
    with ne q show ?thesis
      by (subst Decode_loop.simps) simp
  qed
qed

lemma DecodeString_illegal_char:
  "illegal_char c \<Longrightarrow> c \<in> set s \<Longrightarrow> snd (DecodeString s) \<noteq> None"
  by (simp add: DecodeString_def Decode_loop_illegal)

section \<open>Properties of the adapter\<close>

lemma unat_byte_less: "unat (b :: byte) < 256"
  using unsigned_less [of b, where 'a = nat] by simp

lemma assert_string_hit: "assert_string (Some (JString s)) = (s, True)"
  by (simp add: assert_string_def)

lemma assert_string_miss: "(\<forall>s. v \<noteq> Some (JString s)) \<Longrightarrow> assert_string v = ([], False)"
  by (auto simp: assert_string_def split: option.splits json.splits)

lemma LoadSecret_read_failed:
  "KVv2_Get srv (kvMount vm) (getSecretPath vm secretName) = Inl err \<Longrightarrow>
     LoadSecret k vm secretName T srv = ([], None)"
  by (simp add: LoadSecret_def)

lemma LoadSecret_no_string:
  "KVv2_Get srv (kvMount vm) (getSecretPath vm secretName) = Inr secret \<Longrightarrow>
   \<forall>s. Data secret ''value'' \<noteq> Some (JString s) \<Longrightarrow>
     LoadSecret k vm secretName T srv = ([], None)"
  by (simp add: LoadSecret_def DefaultSecretKey_def assert_string_miss)

lemma LoadSecret_hit:
  "KVv2_Get srv (kvMount vm) (getSecretPath vm secretName) = Inr secret \<Longrightarrow>
   Data secret ''value'' = Some (JString s) \<Longrightarrow>
     LoadSecret k vm secretName T srv = getSecretByteValue k s T"
  by (simp add: LoadSecret_def DefaultSecretKey_def assert_string_hit)

lemma EnsureSecret_Put:
  "EnsureSecret k vm secretName P T srv =
     (map_option WithStack (fst (KVv2_Put srv (kvMount vm) (getSecretPath vm secretName)
         [''value'' \<mapsto> JString (getSecretStrValue k P T), ''secret_type'' \<mapsto> JString T])),
      snd (KVv2_Put srv (kvMount vm) (getSecretPath vm secretName)
         [''value'' \<mapsto> JString (getSecretStrValue k P T), ''secret_type'' \<mapsto> JString T]))"
  by (simp add: EnsureSecret_def DefaultSecretKey_def split: prod.splits option.splits)

lemma wire_data_payload:
  "wire_data f [''value'' \<mapsto> JString x, ''secret_type'' \<mapsto> JString y] =
     [''value'' \<mapsto> JString (f x), ''secret_type'' \<mapsto> JString (f y)]"
  by (rule ext) (simp add: wire_data_def)

lemma EnsureSecret_ok:
  "fault srv = None \<Longrightarrow>
     EnsureSecret k vm secretName P T srv =
       (None, srv\<lparr>kv := (kv srv)(request_path srv (kvMount vm) (getSecretPath vm secretName) \<mapsto>
          [''value'' \<mapsto> JString (wire srv (getSecretStrValue k P T)),
           ''secret_type'' \<mapsto> JString (wire srv T)])\<rparr>)"
  by (simp add: EnsureSecret_Put KVv2_Put_def wire_data_payload)

lemma Get_after_EnsureSecret:
  "fault srv = None \<Longrightarrow>
     KVv2_Get (snd (EnsureSecret k vm secretName P T srv)) (kvMount vm) (getSecretPath vm secretName)
       = Inr \<lparr>Data = [''value'' \<mapsto> JString (wire srv (getSecretStrValue k P T)),
           ''secret_type'' \<mapsto> JString (wire srv T)]\<rparr>"
  by (simp add: EnsureSecret_ok KVv2_Get_def)

lemma LoadSecret_after_EnsureSecret:
  assumes "fault srv = None"
  shows "LoadSecret k vm secretName T (snd (EnsureSecret k vm secretName P T srv))
    = getSecretByteValue k (wire srv (getSecretStrValue k P T)) T"
  using Get_after_EnsureSecret [OF assms] by (rule LoadSecret_hit) simp

lemma getSecretByteValue_getSecretStrValue:
  "getSecretByteValue k (getSecretStrValue k P T) T = (P, None)"
  by (simp add: getSecretByteValue_def getSecretStrValue_def DecodeString_EncodeToString
      bytes_of_string_of_bytes)

lemma example_server_Get:
  "KVv2_Get empty_server mount path = Inl ErrSecretNotFound"
  "KVv2_Get (empty_server\<lparr>fault := Some err\<rparr>) mount path = Inl err"
  "KVv2_Get (server_with path data) ''secret'' path = Inr \<lparr>Data = data\<rparr>"
  by (simp_all add: KVv2_Get_def empty_server_def server_with_def example_request_path_def)

lemma default_handle_path:
  "kvMount default_handle = ''secret''"
  "secretPath default_handle = ''kube/fr/secret''"
  "getSecretPath default_handle secretName = ''kube/fr/secret/'' @ secretName"
  by (simp_all add: default_handle_def getSecretPath_def)

lemma example_server_fields:
  "fault empty_server = None"
  "wire empty_server = json_string"
  "request_path empty_server mount path = mount @ ''/data/'' @ path"
  by (simp_all add: empty_server_def example_request_path_def)

lemma json_string_AQID: "json_string ''AQID'' = ''AQID''"
  by code_simp

lemma json_string_hi: "json_string ''hi'' = ''hi''"
  by code_simp

lemma json_string_pem: "json_string ''pem'' = ''pem''"
  by code_simp

lemma json_string_invalid: "json_string [CHR 0xFF] = [CHR 0xEF, CHR 0xBF, CHR 0xBD]"
  by code_simp

lemma EncodeToString_AQID: "EncodeToString [0x01, 0x02, 0x03] = ''AQID''"
  by (simp add: EncodeToString_def encode_tab_def encodeStd_def)

lemma string_of_bytes_hi: "string_of_bytes [0x68, 0x69] = ''hi''"
  by code_simp

text \<open>
  What the transport does to a text secret that is not valid UTF-8: the password
  \<^verbatim>\<open>FF\<close> is stored as U+FFFD, and loading it returns the bytes \<^verbatim>\<open>EF BF BD\<close>.
\<close>

lemma LoadSecret_after_EnsureSecret_invalid_utf8:
  "LoadSecret example_types default_handle ''pw'' ''password''
     (snd (EnsureSecret example_types default_handle ''pw'' [0xFF] ''password'' empty_server))
   = ([0xEF, 0xBF, 0xBD], None)"
proof -
  have 1: "getSecretStrValue example_types [0xFF] ''password'' = [CHR 0xFF]"
    by code_simp
  have 2: "getSecretByteValue example_types [CHR 0xEF, CHR 0xBF, CHR 0xBD] ''password''
      = ([0xEF, 0xBF, 0xBD], None)"
    by code_simp
  show ?thesis
    by (simp add: LoadSecret_after_EnsureSecret example_server_fields 1 2 json_string_invalid
        del: json_string.simps)
qed

lemmas resolved_defs = resolved_address_def resolved_role_def resolved_prefix_def
  resolved_mount_def override_or_default_def

lemma newVault_resolved:
  "newVault api cfg =
     (case NewClient api (resolved_address cfg) of
        Inl err \<Rightarrow> Inl (Errorf ''Vault: unable to initialize Vault client: %w'' (Some err))
      | Inr client \<Rightarrow>
          (case NewKubernetesAuth api (resolved_role cfg) of
             Inl err \<Rightarrow>
               Inl (Errorf ''Vault: unable to initialize Kubernetes auth method: %w'' (Some err))
           | Inr k8sAuth \<Rightarrow>
               (case Login api client k8sAuth of
                  Inl err \<Rightarrow>
                    Inl (Errorf ''Vault: unable to log in with Kubernetes auth: %w'' (Some err))
                | Inr None \<Rightarrow> Inl (Errorf ''Vault: no auth info was returned after login'' None)
                | Inr (Some authInfo) \<Rightarrow>
                    Inr \<lparr>secretPath = resolved_prefix cfg, kvMount = resolved_mount cfg,
                         vaultClient = client\<rparr>)))"
proof -
  have r: "(if VaultAddress cfg \<noteq> [] then VaultAddress cfg else DefaultVaultAddress)
      = resolved_address cfg"
    "(if VaultKubeRole cfg \<noteq> [] then VaultKubeRole cfg else DefaultVaultKubeRoleName)
      = resolved_role cfg"
    "(if VaultKVSecretPath cfg \<noteq> [] then VaultKVSecretPath cfg else DefaultVaultKVSecretPath)
      = resolved_prefix cfg"
    "(if VaultKVMount cfg \<noteq> [] then VaultKVMount cfg else DefaultKVMount)
      = resolved_mount cfg"
    by (simp_all add: resolved_defs DefaultVaultAddress_def DefaultVaultKubeRoleName_def
        DefaultVaultKVSecretPath_def DefaultKVMount_def)
  show ?thesis
    unfolding newVault_def Let_def r ..
qed

lemma DecodeString_example: "DecodeString ''not base64!'' = ([], Some (CorruptInputError 3))"
  by code_simp

section \<open>The claims\<close>

text \<open>
  C1. Decoding what the store-time encoding produced, with the same secret type, returns
  the payload and no error: for every payload and every tag (keystore, PEM, password or
  any other string), \<open>getSecretByteValue (getSecretStrValue P T) T\<close> is \<open>P\<close> with a
  \<^verbatim>\<open>nil\<close> error. This holds for all values of the three type constants.
\<close>

theorem secret_value_roundtrip:
  "getSecretByteValue k (getSecretStrValue k P T) T = (P, None)"
  by (simp add: getSecretByteValue_def getSecretStrValue_def DecodeString_EncodeToString
      bytes_of_string_of_bytes)

text \<open>
  C2. The soft miss: when the KV read that \<open>LoadSecret\<close> issues fails, whatever the error
  (a path that holds nothing included), or when the record read has no \<open>value\<close> field or
  one that is not a string, \<open>LoadSecret\<close> returns the empty byte sequence and a \<^verbatim>\<open>nil\<close>
  error.
\<close>

theorem LoadSecret_soft_miss:
  assumes "(\<exists>err. KVv2_Get srv (kvMount vm) (getSecretPath vm secretName) = Inl err) \<or>
     (\<exists>secret. KVv2_Get srv (kvMount vm) (getSecretPath vm secretName) = Inr secret \<and>
        (\<forall>s. Data secret ''value'' \<noteq> Some (JString s)))"
  shows "LoadSecret k vm secretName T srv = ([], None)"
  using assms
proof
  assume "\<exists>err. KVv2_Get srv (kvMount vm) (getSecretPath vm secretName) = Inl err"
  then show ?thesis
    by (auto intro: LoadSecret_read_failed)
next
  assume "\<exists>secret. KVv2_Get srv (kvMount vm) (getSecretPath vm secretName) = Inr secret \<and>
        (\<forall>s. Data secret ''value'' \<noteq> Some (JString s))"
  then show ?thesis
    by (auto intro: LoadSecret_no_string)
qed

theorem LoadSecret_soft_miss_witness:
  "LoadSecret example_types default_handle ''keystore1'' ''keystore'' empty_server = ([], None)
   \<and> LoadSecret example_types default_handle ''keystore1'' ''keystore''
       (empty_server\<lparr>fault := Some (RemoteError ''connection refused'')\<rparr>) = ([], None)
   \<and> LoadSecret example_types default_handle ''keystore1'' ''keystore''
       (server_with ''kube/fr/secret/keystore1'' [''secret_type'' \<mapsto> JString ''keystore''])
       = ([], None)
   \<and> LoadSecret example_types default_handle ''keystore1'' ''keystore''
       (server_with ''kube/fr/secret/keystore1'' [''value'' \<mapsto> JNumber 7]) = ([], None)"
proof -
  have 1: "LoadSecret example_types default_handle ''keystore1'' ''keystore'' empty_server
      = ([], None)"
    by (rule LoadSecret_soft_miss) (simp add: example_server_Get)
  have 2: "LoadSecret example_types default_handle ''keystore1'' ''keystore''
       (empty_server\<lparr>fault := Some (RemoteError ''connection refused'')\<rparr>) = ([], None)"
    by (rule LoadSecret_soft_miss) (simp add: example_server_Get)
  have 3: "LoadSecret example_types default_handle ''keystore1'' ''keystore''
       (server_with ''kube/fr/secret/keystore1'' [''secret_type'' \<mapsto> JString ''keystore''])
       = ([], None)"
    by (rule LoadSecret_soft_miss)
      (simp add: example_server_Get default_handle_path)
  have 4: "LoadSecret example_types default_handle ''keystore1'' ''keystore''
       (server_with ''kube/fr/secret/keystore1'' [''value'' \<mapsto> JNumber 7]) = ([], None)"
    by (rule LoadSecret_soft_miss)
      (simp add: example_server_Get default_handle_path)
  from 1 2 3 4 show ?thesis by simp
qed

text \<open>
  C3. A decode failure is not suppressed: when the record read holds a string under
  \<open>value\<close> that is not valid base64 (the standard decoder reports an error on it) and the
  secret type is the keystore tag or none of the three tags, \<open>LoadSecret\<close> returns that
  error, and its result is not the empty success of the soft miss. In particular every
  string with a character outside the alphabet, the padding and the two newline
  characters makes \<open>LoadSecret\<close> return an error.
\<close>

theorem LoadSecret_decode_failure:
  assumes "KVv2_Get srv (kvMount vm) (getSecretPath vm secretName) = Inr secret"
    and "Data secret ''value'' = Some (JString s)"
    and "T = TypeKeystore k \<or> T \<notin> {TypeKeystore k, TypePEM k, TypePassword k}"
  shows "(snd (DecodeString s) = Some err \<longrightarrow>
        snd (LoadSecret k vm secretName T srv) = Some err
        \<and> LoadSecret k vm secretName T srv \<noteq> ([], None))
    \<and> ((\<exists>c \<in> set s. illegal_char c) \<longrightarrow> snd (LoadSecret k vm secretName T srv) \<noteq> None)"
proof -
  have "LoadSecret k vm secretName T srv = getSecretByteValue k s T"
    using assms(1,2) by (rule LoadSecret_hit)
  also have "\<dots> = DecodeString s"
    using assms(3) by (auto simp: getSecretByteValue_def)
  finally have "LoadSecret k vm secretName T srv = DecodeString s" .
  then show ?thesis
    by (auto dest: DecodeString_illegal_char)
qed

theorem LoadSecret_decode_failure_witness:
  "snd (LoadSecret example_types default_handle ''keystore1'' ''keystore''
       (server_with ''kube/fr/secret/keystore1'' [''value'' \<mapsto> JString ''not base64!'']))
     = Some (CorruptInputError 3)
   \<and> LoadSecret example_types default_handle ''keystore1'' ''keystore''
       (server_with ''kube/fr/secret/keystore1'' [''value'' \<mapsto> JString ''not base64!''])
     \<noteq> ([], None)
   \<and> snd (LoadSecret example_types default_handle ''keystore1'' ''''
       (server_with ''kube/fr/secret/keystore1'' [''value'' \<mapsto> JString ''not base64!'']))
     \<noteq> None"
proof -
  let ?srv = "server_with ''kube/fr/secret/keystore1'' [''value'' \<mapsto> JString ''not base64!'']"
  have get: "KVv2_Get ?srv (kvMount default_handle) (getSecretPath default_handle ''keystore1'')
      = Inr \<lparr>Data = [''value'' \<mapsto> JString ''not base64!'']\<rparr>"
    by (simp add: example_server_Get default_handle_path)
  have field: "Data \<lparr>Data = [''value'' \<mapsto> JString ''not base64!'']\<rparr> ''value''
      = Some (JString ''not base64!'')"
    by simp
  have bad: "snd (DecodeString ''not base64!'') = Some (CorruptInputError 3)"
    by (simp add: DecodeString_example)
  have "decodeMap CHR ''!'' = 0xFF"
    by code_simp
  then have ill: "\<exists>c \<in> set ''not base64!''. illegal_char c"
    by (simp add: illegal_char_def StdPadding_def)
  have 1: "''keystore'' = TypeKeystore example_types
      \<or> ''keystore'' \<notin> {TypeKeystore example_types, TypePEM example_types,
           TypePassword example_types}"
    by (simp add: example_types_def)
  have 2: "'''' = TypeKeystore example_types
      \<or> '''' \<notin> {TypeKeystore example_types, TypePEM example_types,
           TypePassword example_types}"
    by (simp add: example_types_def)
  show ?thesis
    using LoadSecret_decode_failure [OF get field 1, of "CorruptInputError 3"]
      LoadSecret_decode_failure [OF get field 2, of "CorruptInputError 3"] bad ill
    by blast
qed

text \<open>
  C4. The encoding rule, the same on both sides: the keystore tag encodes with base64 and
  decodes with the base64 decoder; the PEM and password tags convert bytes to text and
  back without changing any byte, and decoding them never fails; every other tag
  (the empty one included) behaves as the keystore tag, encoding and decoding. All
  functions are total.
\<close>

theorem encoding_selection:
  assumes "distinct_types k"
  shows "getSecretStrValue k data (TypeKeystore k) = EncodeToString data
    \<and> getSecretByteValue k s (TypeKeystore k) = DecodeString s
    \<and> getSecretStrValue k data (TypePEM k) = string_of_bytes data
    \<and> getSecretByteValue k s (TypePEM k) = (bytes_of_string s, None)
    \<and> getSecretStrValue k data (TypePassword k) = string_of_bytes data
    \<and> getSecretByteValue k s (TypePassword k) = (bytes_of_string s, None)
    \<and> (T \<notin> {TypeKeystore k, TypePEM k, TypePassword k} \<longrightarrow>
         getSecretStrValue k data T = getSecretStrValue k data (TypeKeystore k)
         \<and> getSecretByteValue k s T = getSecretByteValue k s (TypeKeystore k))
    \<and> map of_char (string_of_bytes data) = map unat data
    \<and> map unat (bytes_of_string s) = map of_char s"
proof -
  have d: "TypePEM k \<noteq> TypeKeystore k" "TypePassword k \<noteq> TypeKeystore k"
    "TypePassword k \<noteq> TypePEM k"
    using assms by (auto simp: distinct_types_def)
  have 1: "map of_char (string_of_bytes data) = map unat data"
    by (simp add: string_of_bytes_def unat_byte_less)
  have 2: "map unat (bytes_of_string s) = map of_char s"
  proof -
    have "unat (of_char c :: byte) = of_char c" for c
    proof -
      have "unat (of_char c :: byte) = unat (of_nat (of_char c) :: byte)"
        by (simp only: of_nat_of_char)
      also have "\<dots> = of_char c mod 256"
        by (simp add: unat_of_nat)
      finally show ?thesis by simp
    qed
    then show ?thesis by (simp add: bytes_of_string_def)
  qed
  show ?thesis
    using d 1 2 by (simp add: getSecretStrValue_def getSecretByteValue_def)
qed

theorem encoding_selection_witness:
  "distinct_types example_types
   \<and> getSecretStrValue example_types [0x01, 0x02, 0x03] ''keystore'' = ''AQID''
   \<and> getSecretByteValue example_types ''AQID'' ''keystore'' = ([0x01, 0x02, 0x03], None)
   \<and> getSecretStrValue example_types [0x68, 0x69] ''pem'' = ''hi''
   \<and> getSecretByteValue example_types ''hi'' ''password'' = ([0x68, 0x69], None)
   \<and> getSecretStrValue example_types [0x01, 0x02, 0x03] ''unknown'' = ''AQID''
   \<and> getSecretByteValue example_types ''AQID'' ''unknown'' = ([0x01, 0x02, 0x03], None)"
proof -
  have d: "distinct_types example_types"
    by (simp add: distinct_types_def example_types_def)
  have e: "EncodeToString [0x01, 0x02, 0x03] = ''AQID''"
    by (simp add: EncodeToString_def encode_tab_def encodeStd_def)
  have dec: "DecodeString ''AQID'' = ([0x01, 0x02, 0x03], None)"
    by code_simp
  have s: "string_of_bytes [0x68, 0x69] = ''hi''"
    by code_simp
  have b: "bytes_of_string ''hi'' = [0x68, 0x69]"
    by (simp add: bytes_of_string_def)
  have sel: "TypeKeystore example_types = ''keystore''" "TypePEM example_types = ''pem''"
    "TypePassword example_types = ''password''"
    by (simp_all add: example_types_def)
  show ?thesis
    using d e dec s b
      encoding_selection [OF d, of "[0x01, 0x02, 0x03]" "''AQID''" "''unknown''"]
      encoding_selection [OF d, of "[0x68, 0x69]" "''hi''" "''''"]
    by (simp add: sel)
qed

text \<open>
  C5. \<open>EnsureSecret\<close> and \<open>LoadSecret\<close> address the same remote path, the prefix of the
  handle, then \<open>/\<close>, then the name: the write goes to that path of the handle's mount and
  the read is answered from that path. So, when the server accepts requests, the read
  that \<open>LoadSecret\<close> issues for a name finds the record that \<open>EnsureSecret\<close> wrote for
  that name, and \<open>LoadSecret\<close> decodes its \<open>value\<close> field; it returns the payload when the
  transport has left the stored string unchanged.
\<close>

theorem path_construction:
  "getSecretPath vm secretName = secretPath vm @ ''/'' @ secretName
   \<and> snd (EnsureSecret k vm secretName P T srv) =
       snd (KVv2_Put srv (kvMount vm) (secretPath vm @ ''/'' @ secretName)
         [''value'' \<mapsto> JString (getSecretStrValue k P T), ''secret_type'' \<mapsto> JString T])
   \<and> LoadSecret k vm secretName T srv =
       (case KVv2_Get srv (kvMount vm) (secretPath vm @ ''/'' @ secretName) of
          Inl err \<Rightarrow> ([], None)
        | Inr secret \<Rightarrow>
            (case Data secret ''value'' of
               Some (JString s) \<Rightarrow> getSecretByteValue k s T
             | _ \<Rightarrow> ([], None)))
   \<and> (fault srv = None \<longrightarrow>
        KVv2_Get (snd (EnsureSecret k vm secretName P T srv)) (kvMount vm)
            (secretPath vm @ ''/'' @ secretName)
          = Inr \<lparr>Data = [''value'' \<mapsto> JString (wire srv (getSecretStrValue k P T)),
                ''secret_type'' \<mapsto> JString (wire srv T)]\<rparr>
        \<and> LoadSecret k vm secretName T (snd (EnsureSecret k vm secretName P T srv))
          = getSecretByteValue k (wire srv (getSecretStrValue k P T)) T)
   \<and> (fault srv = None \<and> wire srv (getSecretStrValue k P T) = getSecretStrValue k P T \<longrightarrow>
        LoadSecret k vm secretName T (snd (EnsureSecret k vm secretName P T srv)) = (P, None))"
proof -
  have 1: "getSecretPath vm secretName = secretPath vm @ ''/'' @ secretName"
    by (simp add: getSecretPath_def)
  have 2: "snd (EnsureSecret k vm secretName P T srv) =
       snd (KVv2_Put srv (kvMount vm) (secretPath vm @ ''/'' @ secretName)
         [''value'' \<mapsto> JString (getSecretStrValue k P T), ''secret_type'' \<mapsto> JString T])"
    by (simp add: EnsureSecret_Put 1)
  have 3: "LoadSecret k vm secretName T srv =
       (case KVv2_Get srv (kvMount vm) (secretPath vm @ ''/'' @ secretName) of
          Inl err \<Rightarrow> ([], None)
        | Inr secret \<Rightarrow>
            (case Data secret ''value'' of
               Some (JString s) \<Rightarrow> getSecretByteValue k s T
             | _ \<Rightarrow> ([], None)))"
    by (simp add: LoadSecret_def DefaultSecretKey_def assert_string_def 1
        split: sum.splits option.splits json.splits)
  have 4: "fault srv = None \<longrightarrow>
        KVv2_Get (snd (EnsureSecret k vm secretName P T srv)) (kvMount vm)
            (secretPath vm @ ''/'' @ secretName)
          = Inr \<lparr>Data = [''value'' \<mapsto> JString (wire srv (getSecretStrValue k P T)),
                ''secret_type'' \<mapsto> JString (wire srv T)]\<rparr>
        \<and> LoadSecret k vm secretName T (snd (EnsureSecret k vm secretName P T srv))
          = getSecretByteValue k (wire srv (getSecretStrValue k P T)) T"
    using Get_after_EnsureSecret [of srv k vm secretName P T]
      LoadSecret_after_EnsureSecret [of srv k vm secretName T P]
    by (simp add: 1)
  have 5: "fault srv = None \<and> wire srv (getSecretStrValue k P T) = getSecretStrValue k P T \<longrightarrow>
        LoadSecret k vm secretName T (snd (EnsureSecret k vm secretName P T srv)) = (P, None)"
    using LoadSecret_after_EnsureSecret [of srv k vm secretName T P]
    by (simp add: getSecretByteValue_getSecretStrValue)
  show ?thesis
    by (intro conjI 1 2 3 4 5)
qed

theorem path_construction_witness:
  "getSecretPath default_handle ''tls-cert'' = ''kube/fr/secret/tls-cert''
   \<and> KVv2_Get (snd (EnsureSecret example_types default_handle ''tls-cert'' [0x68, 0x69] ''pem''
           empty_server)) ''secret'' ''kube/fr/secret/tls-cert''
       = Inr \<lparr>Data = [''value'' \<mapsto> JString ''hi'', ''secret_type'' \<mapsto> JString ''pem'']\<rparr>
   \<and> LoadSecret example_types default_handle ''tls-cert'' ''pem''
        (snd (EnsureSecret example_types default_handle ''tls-cert'' [0x68, 0x69] ''pem''
           empty_server)) = ([0x68, 0x69], None)"
proof -
  note th = path_construction [of default_handle "''tls-cert''" example_types "[0x68, 0x69]"
      "''pem''" empty_server]
  have v: "getSecretStrValue example_types [0x68, 0x69] ''pem'' = ''hi''"
    by (simp add: getSecretStrValue_def example_types_def string_of_bytes_hi)
  have f: "fault empty_server = None"
    by (simp add: example_server_fields)
  have w: "fault empty_server = None
      \<and> wire empty_server (getSecretStrValue example_types [0x68, 0x69] ''pem'')
        = getSecretStrValue example_types [0x68, 0x69] ''pem''"
    by (simp add: example_server_fields v json_string_hi del: json_string.simps)
  have 1: "getSecretPath default_handle ''tls-cert'' = ''kube/fr/secret/tls-cert''"
    using th [THEN conjunct1] by (simp add: default_handle_path)
  have 2: "KVv2_Get (snd (EnsureSecret example_types default_handle ''tls-cert'' [0x68, 0x69]
           ''pem'' empty_server)) ''secret'' ''kube/fr/secret/tls-cert''
       = Inr \<lparr>Data = [''value'' \<mapsto> JString ''hi'', ''secret_type'' \<mapsto> JString ''pem'']\<rparr>"
    using th [THEN conjunct2, THEN conjunct2, THEN conjunct2, THEN conjunct1, rule_format,
        OF f, THEN conjunct1]
    by (simp add: default_handle_path example_server_fields v json_string_hi json_string_pem
        del: json_string.simps)
  have 3: "LoadSecret example_types default_handle ''tls-cert'' ''pem''
        (snd (EnsureSecret example_types default_handle ''tls-cert'' [0x68, 0x69] ''pem''
           empty_server)) = ([0x68, 0x69], None)"
    using th [THEN conjunct2, THEN conjunct2, THEN conjunct2, THEN conjunct2, rule_format,
        OF w] .
  from 1 2 3 show ?thesis by simp
qed

text \<open>
  C6, as amended. The scenario of the specification: storing the bytes 1, 2, 3 under the
  name \<open>keystore1\<close> with the keystore type succeeds and leaves a record whose \<open>value\<close>
  field is the string \<open>AQID\<close>, the base64 encoding of the three bytes (where the
  transport keeps that string, as it keeps every ASCII string); loading the name with the
  keystore type returns the bytes 1, 2, 3 and no error. The field is not the base64
  encoding of the text \<open>AQID\<close>, which is \<open>QVFJRA==\<close>.
\<close>

theorem keystore1_scenario:
  assumes "fault srv = None" and "wire srv ''AQID'' = ''AQID''"
  shows "fst (EnsureSecret k vm ''keystore1'' [0x01, 0x02, 0x03] (TypeKeystore k) srv) = None
    \<and> stored_field (snd (EnsureSecret k vm ''keystore1'' [0x01, 0x02, 0x03] (TypeKeystore k) srv))
          (request_path srv (kvMount vm) (secretPath vm @ ''/keystore1'')) ''value''
        = Some (JString ''AQID'')
    \<and> LoadSecret k vm ''keystore1'' (TypeKeystore k)
        (snd (EnsureSecret k vm ''keystore1'' [0x01, 0x02, 0x03] (TypeKeystore k) srv))
      = ([0x01, 0x02, 0x03], None)"
proof -
  have e: "getSecretStrValue k [0x01, 0x02, 0x03] (TypeKeystore k) = ''AQID''"
    by (simp add: getSecretStrValue_def EncodeToString_AQID)
  have 1: "fst (EnsureSecret k vm ''keystore1'' [0x01, 0x02, 0x03] (TypeKeystore k) srv) = None"
    using assms(1) by (simp add: EnsureSecret_ok)
  have 2: "stored_field
        (snd (EnsureSecret k vm ''keystore1'' [0x01, 0x02, 0x03] (TypeKeystore k) srv))
        (request_path srv (kvMount vm) (secretPath vm @ ''/keystore1'')) ''value''
      = Some (JString ''AQID'')"
    using assms by (simp add: EnsureSecret_ok stored_field_def getSecretPath_def e)
  have "LoadSecret k vm ''keystore1'' (TypeKeystore k)
        (snd (EnsureSecret k vm ''keystore1'' [0x01, 0x02, 0x03] (TypeKeystore k) srv))
      = getSecretByteValue k (getSecretStrValue k [0x01, 0x02, 0x03] (TypeKeystore k))
          (TypeKeystore k)"
    using assms by (simp add: LoadSecret_after_EnsureSecret e)
  then have 3: "LoadSecret k vm ''keystore1'' (TypeKeystore k)
        (snd (EnsureSecret k vm ''keystore1'' [0x01, 0x02, 0x03] (TypeKeystore k) srv))
      = ([0x01, 0x02, 0x03], None)"
    by (simp only: getSecretByteValue_getSecretStrValue)
  show ?thesis
    by (intro conjI 1 2 3)
qed

theorem keystore1_scenario_witness:
  "fst (EnsureSecret example_types default_handle ''keystore1'' [0x01, 0x02, 0x03] ''keystore''
      empty_server) = None
   \<and> stored_field (snd (EnsureSecret example_types default_handle ''keystore1''
          [0x01, 0x02, 0x03] ''keystore'' empty_server))
        ''secret/data/kube/fr/secret/keystore1'' ''value'' = Some (JString ''AQID'')
   \<and> LoadSecret example_types default_handle ''keystore1'' ''keystore''
        (snd (EnsureSecret example_types default_handle ''keystore1'' [0x01, 0x02, 0x03]
          ''keystore'' empty_server)) = ([0x01, 0x02, 0x03], None)"
proof -
  have f: "fault empty_server = None"
    by (simp add: example_server_fields)
  have w: "wire empty_server ''AQID'' = ''AQID''"
    by (simp add: example_server_fields json_string_AQID del: json_string.simps)
  have sel: "TypeKeystore example_types = ''keystore''"
    by (simp add: example_types_def)
  show ?thesis
    using keystore1_scenario [OF f w, of example_types default_handle]
    by (simp add: sel default_handle_path example_server_fields)
qed

text \<open>
  The scenario as the specification words it fails: \<open>base64("AQID")\<close> is the string
  \<open>QVFJRA==\<close>, and the \<open>value\<close> field of the record stored is \<open>AQID\<close>.
\<close>

theorem keystore1_value_counterexample:
  "EncodeToString (bytes_of_string ''AQID'') = ''QVFJRA==''
   \<and> stored_field (snd (EnsureSecret example_types default_handle ''keystore1''
          [0x01, 0x02, 0x03] ''keystore'' empty_server))
        ''secret/data/kube/fr/secret/keystore1'' ''value''
      \<noteq> Some (JString (EncodeToString (bytes_of_string ''AQID'')))"
proof -
  have b: "EncodeToString (bytes_of_string ''AQID'') = ''QVFJRA==''"
    by code_simp
  have e: "getSecretStrValue example_types [0x01, 0x02, 0x03] ''keystore'' = ''AQID''"
    by (simp add: getSecretStrValue_def example_types_def EncodeToString_AQID)
  have "stored_field (snd (EnsureSecret example_types default_handle ''keystore1''
          [0x01, 0x02, 0x03] ''keystore'' empty_server))
        ''secret/data/kube/fr/secret/keystore1'' ''value'' = Some (JString ''AQID'')"
    by (simp add: EnsureSecret_ok example_server_fields stored_field_def default_handle_path e
        json_string_AQID del: json_string.simps)
  with b show ?thesis by simp
qed

text \<open>
  C7. The record \<open>EnsureSecret\<close> hands to the write has exactly the two fields \<open>value\<close> and
  \<open>secret_type\<close>; \<open>secret_type\<close> holds the tag, and \<open>value\<close> always holds a string. For
  the PEM and password tags it is the payload as text, byte for byte; for the keystore
  tag and for every other tag it is the base64 encoding of the payload, which the
  base64 decoder turns back into the payload. When the write succeeds, the record stored
  is that record after the transport: it has the same two fields, and its \<open>value\<close> is a
  string.
\<close>

theorem EnsureSecret_record_shape:
  assumes "distinct_types k"
  shows "\<exists>d. EnsureSecret k vm secretName P T srv
         = (map_option WithStack
              (fst (KVv2_Put srv (kvMount vm) (getSecretPath vm secretName) d)),
            snd (KVv2_Put srv (kvMount vm) (getSecretPath vm secretName) d))
     \<and> dom d = {''value'', ''secret_type''}
     \<and> d ''secret_type'' = Some (JString T)
     \<and> (T = TypePEM k \<or> T = TypePassword k \<longrightarrow>
          d ''value'' = Some (JString (string_of_bytes P))
          \<and> map of_char (string_of_bytes P) = map unat P)
     \<and> (T \<noteq> TypePEM k \<and> T \<noteq> TypePassword k \<longrightarrow>
          d ''value'' = Some (JString (EncodeToString P))
          \<and> DecodeString (EncodeToString P) = (P, None))
     \<and> (fault srv = None \<longrightarrow>
          kv (snd (EnsureSecret k vm secretName P T srv))
              (request_path srv (kvMount vm) (getSecretPath vm secretName))
            = Some (wire_data (wire srv) d)
          \<and> dom (wire_data (wire srv) d) = {''value'', ''secret_type''}
          \<and> (\<exists>s. wire_data (wire srv) d ''value'' = Some (JString s)))"
proof -
  let ?d = "[''value'' \<mapsto> JString (getSecretStrValue k P T), ''secret_type'' \<mapsto> JString T]"
  have d: "TypePEM k \<noteq> TypeKeystore k" "TypePassword k \<noteq> TypeKeystore k"
    using assms by (auto simp: distinct_types_def)
  have 1: "EnsureSecret k vm secretName P T srv
         = (map_option WithStack
              (fst (KVv2_Put srv (kvMount vm) (getSecretPath vm secretName) ?d)),
            snd (KVv2_Put srv (kvMount vm) (getSecretPath vm secretName) ?d))"
    by (rule EnsureSecret_Put)
  have 2: "dom ?d = {''value'', ''secret_type''}"
    by auto
  have 3: "?d ''secret_type'' = Some (JString T)"
    by simp
  have 4: "T = TypePEM k \<or> T = TypePassword k \<longrightarrow>
          ?d ''value'' = Some (JString (string_of_bytes P))
          \<and> map of_char (string_of_bytes P) = map unat P"
    using d by (auto simp: getSecretStrValue_def string_of_bytes_def unat_byte_less)
  have 5: "T \<noteq> TypePEM k \<and> T \<noteq> TypePassword k \<longrightarrow>
          ?d ''value'' = Some (JString (EncodeToString P))
          \<and> DecodeString (EncodeToString P) = (P, None)"
    by (simp add: getSecretStrValue_def DecodeString_EncodeToString)
  have 6: "fault srv = None \<longrightarrow>
          kv (snd (EnsureSecret k vm secretName P T srv))
              (request_path srv (kvMount vm) (getSecretPath vm secretName))
            = Some (wire_data (wire srv) ?d)
          \<and> dom (wire_data (wire srv) ?d) = {''value'', ''secret_type''}
          \<and> (\<exists>s. wire_data (wire srv) ?d ''value'' = Some (JString s))"
    by (simp add: EnsureSecret_ok wire_data_payload) auto
  show ?thesis
    by (intro exI [of _ ?d] conjI 1 2 3 4 5 6)
qed

theorem EnsureSecret_record_shape_witness:
  "stored_field (snd (EnsureSecret example_types default_handle ''keystore1''
        [0x01, 0x02, 0x03] ''keystore'' empty_server))
      ''secret/data/kube/fr/secret/keystore1'' ''value'' = Some (JString ''AQID'')
   \<and> stored_field (snd (EnsureSecret example_types default_handle ''keystore1''
        [0x01, 0x02, 0x03] ''keystore'' empty_server))
      ''secret/data/kube/fr/secret/keystore1'' ''secret_type'' = Some (JString ''keystore'')
   \<and> stored_field (snd (EnsureSecret example_types default_handle ''tls-cert''
        [0x68, 0x69] ''pem'' empty_server))
      ''secret/data/kube/fr/secret/tls-cert'' ''value'' = Some (JString ''hi'')"
proof -
  have t: "distinct_types example_types"
    by (simp add: distinct_types_def example_types_def)
  have f: "fault empty_server = None"
    by (simp add: example_server_fields)
  have sel: "TypePEM example_types = ''pem''" "TypePassword example_types = ''password''"
    by (simp_all add: example_types_def)
  have js: "json_string ''keystore'' = ''keystore''"
    by code_simp
  from EnsureSecret_record_shape [OF t, of default_handle "''keystore1''" "[0x01, 0x02, 0x03]"
      "''keystore''" empty_server]
  obtain d where d: "d ''secret_type'' = Some (JString ''keystore'')"
    "d ''value'' = Some (JString (EncodeToString [0x01, 0x02, 0x03]))"
    "kv (snd (EnsureSecret example_types default_handle ''keystore1'' [0x01, 0x02, 0x03]
        ''keystore'' empty_server)) ''secret/data/kube/fr/secret/keystore1''
      = Some (wire_data json_string d)"
    using f by (auto simp: sel default_handle_path example_server_fields)
  from EnsureSecret_record_shape [OF t, of default_handle "''tls-cert''" "[0x68, 0x69]"
      "''pem''" empty_server]
  obtain r where r: "r ''value'' = Some (JString (string_of_bytes [0x68, 0x69]))"
    "kv (snd (EnsureSecret example_types default_handle ''tls-cert'' [0x68, 0x69]
        ''pem'' empty_server)) ''secret/data/kube/fr/secret/tls-cert''
      = Some (wire_data json_string r)"
    using f by (auto simp: sel default_handle_path example_server_fields)
  show ?thesis
    by (simp add: stored_field_def d r wire_data_def EncodeToString_AQID string_of_bytes_hi
        json_string_AQID json_string_hi js del: json_string.simps)
qed

text \<open>
  C8. The bootstrap resolves the four configuration fields by override or default, with
  the defaults of the specification: \<open>newVault\<close> returns a handle exactly when the client
  built for the resolved address, the auth method built for the resolved role and the
  login all succeed, and the handle then carries the resolved prefix, the resolved mount
  and that client.
\<close>

theorem newVault_resolution:
  "newVault api cfg = Inr vm \<longleftrightarrow>
     (\<exists>client k8sAuth authInfo.
        NewClient api (override_or_default (VaultAddress cfg)
          ''http://vault-active.vault.svc.cluster.local:8200'') = Inr client
        \<and> NewKubernetesAuth api (override_or_default (VaultKubeRole cfg) ''fr-secret-agent'')
          = Inr k8sAuth
        \<and> Login api client k8sAuth = Inr (Some authInfo)
        \<and> vm = \<lparr>secretPath = override_or_default (VaultKVSecretPath cfg) ''kube/fr/secret'',
                 kvMount = override_or_default (VaultKVMount cfg) ''secret'',
                 vaultClient = client\<rparr>)"
  unfolding newVault_resolved
  by (auto simp: resolved_address_def resolved_role_def resolved_prefix_def resolved_mount_def
      split: sum.splits option.splits)

theorem newVault_resolution_witness:
  "newVault example_api default_config = Inr default_handle
   \<and> newVault example_api (default_config\<lparr>VaultKVSecretPath := ''team/a'',
         VaultKVMount := ''kv''\<rparr>)
     = Inr \<lparr>secretPath = ''team/a'', kvMount = ''kv'',
          vaultClient = Client ''http://vault-active.vault.svc.cluster.local:8200''\<rparr>
   \<and> newVault (example_api\<lparr>Login := (\<lambda>client k8sAuth. Inr None)\<rparr>) default_config
     \<noteq> Inr default_handle"
  by (simp add: newVault_resolution example_api_def default_config_def default_handle_def
      override_or_default_def)
text \<open>
  C9. Each of the four failures of the bootstrap is returned as an error, and no handle:
  the construction of the client, the construction of the auth method, the login, and a
  login that returns no session. The four errors differ from each other, whatever errors
  they wrap.
\<close>

theorem newVault_failures:
  "(NewClient api (resolved_address cfg) = Inl e \<longrightarrow>
      newVault api cfg = Inl (Errorf ''Vault: unable to initialize Vault client: %w'' (Some e)))
   \<and> (NewClient api (resolved_address cfg) = Inr client
      \<and> NewKubernetesAuth api (resolved_role cfg) = Inl e \<longrightarrow>
      newVault api cfg =
        Inl (Errorf ''Vault: unable to initialize Kubernetes auth method: %w'' (Some e)))
   \<and> (NewClient api (resolved_address cfg) = Inr client
      \<and> NewKubernetesAuth api (resolved_role cfg) = Inr k8sAuth
      \<and> Login api client k8sAuth = Inl e \<longrightarrow>
      newVault api cfg =
        Inl (Errorf ''Vault: unable to log in with Kubernetes auth: %w'' (Some e)))
   \<and> (NewClient api (resolved_address cfg) = Inr client
      \<and> NewKubernetesAuth api (resolved_role cfg) = Inr k8sAuth
      \<and> Login api client k8sAuth = Inr None \<longrightarrow>
      newVault api cfg = Inl (Errorf ''Vault: no auth info was returned after login'' None))
   \<and> distinct [Errorf ''Vault: unable to initialize Vault client: %w'' (Some e1),
        Errorf ''Vault: unable to initialize Kubernetes auth method: %w'' (Some e2),
        Errorf ''Vault: unable to log in with Kubernetes auth: %w'' (Some e3),
        Errorf ''Vault: no auth info was returned after login'' None]"
  unfolding newVault_resolved
  by (simp split: sum.splits option.splits)

theorem newVault_failures_witness:
  "newVault (example_api\<lparr>NewClient := (\<lambda>addr. Inl (RemoteError ''bad address''))\<rparr>)
       default_config
     = Inl (Errorf ''Vault: unable to initialize Vault client: %w''
         (Some (RemoteError ''bad address'')))
   \<and> newVault (example_api\<lparr>NewKubernetesAuth := (\<lambda>role. Inl (RemoteError ''no token''))\<rparr>)
       default_config
     = Inl (Errorf ''Vault: unable to initialize Kubernetes auth method: %w''
         (Some (RemoteError ''no token'')))
   \<and> newVault (example_api\<lparr>Login := (\<lambda>client k8sAuth. Inl (RemoteError ''denied''))\<rparr>)
       default_config
     = Inl (Errorf ''Vault: unable to log in with Kubernetes auth: %w''
         (Some (RemoteError ''denied'')))
   \<and> newVault (example_api\<lparr>Login := (\<lambda>client k8sAuth. Inr None)\<rparr>) default_config
     = Inl (Errorf ''Vault: no auth info was returned after login'' None)"
proof -
  let ?addr = "''http://vault-active.vault.svc.cluster.local:8200''"
  let ?api1 = "example_api\<lparr>NewClient := (\<lambda>addr. Inl (RemoteError ''bad address''))\<rparr>"
  let ?api2 = "example_api\<lparr>NewKubernetesAuth := (\<lambda>role. Inl (RemoteError ''no token''))\<rparr>"
  let ?api3 = "example_api\<lparr>Login := (\<lambda>client k8sAuth. Inl (RemoteError ''denied''))\<rparr>"
  let ?api4 = "example_api\<lparr>Login := (\<lambda>client k8sAuth. Inr None)\<rparr>"
  have 1: "newVault ?api1 default_config
     = Inl (Errorf ''Vault: unable to initialize Vault client: %w''
         (Some (RemoteError ''bad address'')))"
    using newVault_failures [of ?api1 default_config "RemoteError ''bad address''"]
    by (simp add: example_api_def)
  have 2: "newVault ?api2 default_config
     = Inl (Errorf ''Vault: unable to initialize Kubernetes auth method: %w''
         (Some (RemoteError ''no token'')))"
    using newVault_failures [of ?api2 default_config "RemoteError ''no token''" "Client ?addr"]
    by (simp add: example_api_def default_config_def resolved_defs)
  have 3: "newVault ?api3 default_config
     = Inl (Errorf ''Vault: unable to log in with Kubernetes auth: %w''
         (Some (RemoteError ''denied'')))"
    using newVault_failures [of ?api3 default_config "RemoteError ''denied''" "Client ?addr"
        "KubernetesAuth ''fr-secret-agent''"]
    by (simp add: example_api_def default_config_def resolved_defs)
  have 4: "newVault ?api4 default_config
     = Inl (Errorf ''Vault: no auth info was returned after login'' None)"
    using newVault_failures [of ?api4 default_config _ "Client ?addr"
        "KubernetesAuth ''fr-secret-agent''"]
    by (simp add: example_api_def default_config_def resolved_defs)
  from 1 2 3 4 show ?thesis by simp
qed
text \<open>
  C10. With the PEM or the password type, \<open>LoadSecret\<close> never returns an error, whatever
  the server holds or answers: a failed read and a missing or non-string field are an
  empty success, and the conversion of text to bytes cannot fail.
\<close>

theorem LoadSecret_text_types_no_error:
  assumes "T = TypePEM k \<or> T = TypePassword k" and "distinct_types k"
  shows "snd (LoadSecret k vm secretName T srv) = None"
proof -
  have "T \<noteq> TypeKeystore k"
    using assms by (auto simp: distinct_types_def)
  with assms(1) have "getSecretByteValue k s T = (bytes_of_string s, None)" for s
    by (auto simp: getSecretByteValue_def)
  then show ?thesis
    by (simp add: LoadSecret_def split: sum.splits prod.splits)
qed

theorem LoadSecret_text_types_no_error_witness:
  "snd (LoadSecret example_types default_handle ''tls-cert'' ''pem''
      (server_with ''kube/fr/secret/tls-cert'' [''value'' \<mapsto> JString ''not base64!''])) = None
   \<and> snd (LoadSecret example_types default_handle ''tls-cert'' ''password''
      (empty_server\<lparr>fault := Some (RemoteError ''connection refused'')\<rparr>)) = None"
proof -
  have d: "distinct_types example_types"
    by (simp add: distinct_types_def example_types_def)
  have 1: "''pem'' = TypePEM example_types \<or> ''pem'' = TypePassword example_types"
    by (simp add: example_types_def)
  have 2: "''password'' = TypePEM example_types \<or> ''password'' = TypePassword example_types"
    by (simp add: example_types_def)
  show ?thesis
    using LoadSecret_text_types_no_error [OF 1 d] LoadSecret_text_types_no_error [OF 2 d]
    by simp
qed


end
